theory Spec2Isabelle
  imports Main
begin

section \<open>Python values, exceptions and the magic's configuration\<close>

text \<open>
  The module \<^verbatim>\<open>vsql/vmagic.py\<close> defines \<^verbatim>\<open>get_connection_dict\<close> and the magic
  \<^verbatim>\<open>VerticaSqlMagic.execute\<close>. The values that flow through them are cells of a result
  table, tables (a dataframe of pandas, or the row set of the legacy runner), and the few
  scalars of the connection dictionary.
\<close>

datatype datum = DNull | DInt int | DStr string

text \<open>A table: its columns in order, each a name with the column's cells.\<close>

type_synonym table = "(string \<times> datum list) list"

datatype pyval =
    PNone
  | PStr string
  | PInt int
  | PBool bool
  | PDataFrame table
  | PResultSet table
  | PSeries "datum list"
  | PTuple "datum list"

text \<open>
  The exceptions of the module. \<open>OtherException\<close> stands for any further subclass of
  \<^verbatim>\<open>Exception\<close> (a driver's connection error, a pandas error);
  \<open>KeyboardInterrupt\<close> derives from \<^verbatim>\<open>BaseException\<close> only, so
  \<^verbatim>\<open>except Exception\<close> lets it pass.
\<close>

datatype exn =
    AssertionError string
  | NameError string
  | UnboundLocalError string
  | AttributeError string
  | TypeError string
  | ProgrammingError string
  | OperationalError string
  | OtherException string
  | KeyboardInterrupt

text \<open>\<^verbatim>\<open>isinstance(e, Exception)\<close>\<close>

fun is_Exception :: "exn \<Rightarrow> bool" where
  "is_Exception KeyboardInterrupt = False"
| "is_Exception _ = True"

text \<open>The errors that \<^verbatim>\<open>except Exception\<close> does not catch.\<close>

fun escapes_handler :: "exn \<Rightarrow> bool" where
  "escapes_handler KeyboardInterrupt = True"
| "escapes_handler _ = False"

text \<open>\<^verbatim>\<open>isinstance(e, (ProgrammingError, OperationalError))\<close>\<close>

fun is_database_error :: "exn \<Rightarrow> bool" where
  "is_database_error (ProgrammingError _) = True"
| "is_database_error (OperationalError _) = True"
| "is_database_error _ = False"

text \<open>\<^verbatim>\<open>str(e)\<close>, what \<^verbatim>\<open>print(e)\<close> writes.\<close>

fun str_exn :: "exn \<Rightarrow> string" where
  "str_exn (AssertionError m) = m"
| "str_exn (NameError m) = m"
| "str_exn (UnboundLocalError m) = m"
| "str_exn (AttributeError m) = m"
| "str_exn (TypeError m) = m"
| "str_exn (ProgrammingError m) = m"
| "str_exn (OperationalError m) = m"
| "str_exn (OtherException m) = m"
| "str_exn KeyboardInterrupt = []"

text \<open>The configurable traits of \<^verbatim>\<open>VerticaSqlMagic\<close>, with their defaults.\<close>

record config =
  autolimit :: "int option"
  style :: string
  short_errors :: bool
  displaylimit :: "int option"
  autopandas :: bool
  column_local_vars :: bool
  feedback :: bool
  dsn_filename :: string
  autocommit :: bool

definition default_config :: config where
  "default_config =
     \<lparr>autolimit = Some 0, style = ''DEFAULT'', short_errors = True, displaylimit = None,
      autopandas = False, column_local_vars = False, feedback = True,
      dsn_filename = ''odbc.ini'', autocommit = True\<rparr>"

section \<open>The connection dictionary\<close>

type_synonym environ = "string \<rightharpoonup> string"

text \<open>
  \<^verbatim>\<open>get_connection_dict\<close>: four assertions, in the source's order, then the dictionary
  literal. \<^verbatim>\<open>os.environ.get(k, default)\<close> gives the variable's text when it is set and
  the default (an integer for the port and the timeout) when it is not. The assertions
  are live: the interpreter does not run with \<^verbatim>\<open>-O\<close>.
\<close>

definition environ_get :: "environ \<Rightarrow> string \<Rightarrow> pyval \<Rightarrow> pyval" where
  "environ_get env k dflt = (case env k of None \<Rightarrow> dflt | Some v \<Rightarrow> PStr v)"

definition get_connection_dict :: "environ \<Rightarrow> exn + (string \<times> pyval) list" where
  "get_connection_dict env =
     (case env ''VERTICA_HOST'' of
        None \<Rightarrow> Inl (AssertionError ''Ensure that `vertica.host` is set in your environment.'')
      | Some host \<Rightarrow>
     (case env ''VERTICA_USER'' of
        None \<Rightarrow> Inl (AssertionError ''Ensure that `vertica.user` is set in your environment.'')
      | Some user \<Rightarrow>
     (case env ''VERTICA_PASSWORD'' of
        None \<Rightarrow> Inl (AssertionError ''Ensure that `vertica.password` is set in your environment.'')
      | Some password \<Rightarrow>
     (case env ''VERTICA_DB'' of
        None \<Rightarrow> Inl (AssertionError ''Ensure that `vertica.db` is set in your environment.'')
      | Some db \<Rightarrow>
          Inr [(''host'', PStr host),
               (''port'', environ_get env ''VERTICA_PORT'' (PInt 5433)),
               (''user'', PStr user),
               (''password'', PStr password),
               (''database'', PStr db),
               (''session_label'', environ_get env ''VERTICA_LABEL'' (PStr ''vsql magic session'')),
               (''unicode_error'', PStr ''strict''),
               (''ssl'', PBool False),
               (''use_prepared_statements'', PBool False),
               (''connection_timeout'', environ_get env ''VERTICA_TIMEOUT'' (PInt 5))]))))"

section \<open>The collaborators and the observable state\<close>

type_synonym namespace = "string \<rightharpoonup> pyval"

type_synonym conn = nat

text \<open>
  Modelled from the spec: the result of \<^verbatim>\<open>vsql.parse.parse\<close>, whose module is not
  among the sources. The spec's ParsedInvocation carries the SQL text and the flags (a
  mapping from flag name to the flag's text, such as the target variable of
  \<^verbatim>\<open>result_var\<close>); \<^verbatim>\<open>execute\<close> reads \<^verbatim>\<open>parsed['sql']\<close> and
  \<^verbatim>\<open>parsed['flags']\<close> only.
\<close>

record parsed =
  sql :: string
  flags :: "string \<rightharpoonup> string"

text \<open>
  Everything \<^verbatim>\<open>execute\<close> calls outside the module is a field of the world: the
  process environment, the parser, the driver's \<^verbatim>\<open>connect\<close>, pandas'
  \<^verbatim>\<open>read_sql\<close>, and the two attributes the source reaches through the name
  \<^verbatim>\<open>sql\<close> (\<^verbatim>\<open>sql.connection.Connection.tell_format()\<close> and
  \<^verbatim>\<open>sql.run.run\<close>). Each call either raises or returns.
\<close>

record world =
  environ :: environ
  parse :: "string \<Rightarrow> config \<Rightarrow> exn + parsed"
  connect :: "(string \<times> pyval) list \<Rightarrow> exn + conn"
  read_sql :: "string \<Rightarrow> conn \<Rightarrow> exn + table"
  tell_format :: "exn + string"
  run :: "conn \<Rightarrow> string \<Rightarrow> config \<Rightarrow> namespace \<Rightarrow> exn + pyval"

text \<open>
  What the driver sees, in order: the call of \<^verbatim>\<open>connect\<close> with its parameters, the
  entry into the \<^verbatim>\<open>with\<close> block (the handle is acquired), the query, and the
  \<^verbatim>\<open>__exit__\<close> of the handle, which releases it.
\<close>

datatype event =
    Connect "(string \<times> pyval) list"
  | Enter conn
  | Query string conn
  | Exit conn

text \<open>
  The state a call acts on: the lines printed, the driver's trace, the notebook namespace
  \<^verbatim>\<open>self.shell.user_ns\<close>, and the call's local variable \<^verbatim>\<open>conn\<close>.
\<close>

record state =
  stdout :: "string list"
  events :: "event list"
  user_ns :: namespace
  conn_var :: "conn option"

definition print_line :: "string \<Rightarrow> state \<Rightarrow> state" where
  "print_line l s = s\<lparr>stdout := stdout s @ [l]\<rparr>"

definition log :: "event \<Rightarrow> state \<Rightarrow> state" where
  "log ev s = s\<lparr>events := events s @ [ev]\<rparr>"

text \<open>How a block of statements ends: it falls through, returns a value, or raises.\<close>

datatype completion = Normal | Return pyval | Raise exn

text \<open>How the call ends for its caller; falling off the end of the body returns None.\<close>

datatype outcome = Returned pyval | Raised exn

fun finish :: "completion \<Rightarrow> outcome" where
  "finish Normal = Returned PNone"
| "finish (Return v) = Returned v"
| "finish (Raise e) = Raised e"

section \<open>Names of the module\<close>

text \<open>
  The names the module binds at its top level: its imports (either branch of the two
  guarded imports binds the same names) and its three definitions. The module imports
  \<^verbatim>\<open>vsql.connection\<close>, \<^verbatim>\<open>vsql.parse\<close> and \<^verbatim>\<open>vsql.run\<close>, which bind
  \<^verbatim>\<open>vsql\<close>.
\<close>

definition module_globals :: "string list" where
  "module_globals =
     [''re'', ''Magics'', ''magics_class'', ''cell_magic'', ''line_magic'',
      ''needs_local_scope'', ''display_javascript'', ''Configurable'', ''Bool'', ''Int'',
      ''Unicode'', ''DataFrame'', ''Series'', ''ProgrammingError'', ''OperationalError'',
      ''vsql'', ''vertica_python'', ''os'', ''pd'', ''get_connection_dict'',
      ''VerticaSqlMagic'', ''load_ipython_extension'']"

text \<open>Reading a global name: a NameError when the module does not bind it.\<close>

definition lookup_global :: "string \<Rightarrow> exn + unit" where
  "lookup_global n =
     (if n \<in> set module_globals then Inr ()
      else Inl (NameError (''name '' @ [CHR 0x27] @ n @ [CHR 0x27] @ '' is not defined'')))"

section \<open>The body of execute\<close>

text \<open>\<^verbatim>\<open>'%s\n%s' % (line, cell)\<close>\<close>

definition invocation_text :: "string \<Rightarrow> string \<Rightarrow> string" where
  "invocation_text line cell = line @ [CHR 0x0A] @ cell"

text \<open>
  Lines 118 to 121, the \<^verbatim>\<open>with\<close> statement. The argument
  \<^verbatim>\<open>get_connection_dict()\<close> is evaluated before \<^verbatim>\<open>connect\<close> is called. Once the
  handle is entered, leaving the block by the \<^verbatim>\<open>return\<close> or by an exception of
  \<^verbatim>\<open>read_sql\<close> runs the handle's \<^verbatim>\<open>__exit__\<close> first; the driver's
  \<^verbatim>\<open>__exit__\<close> closes the connection and does not swallow the exception.
\<close>

definition with_connect :: "world \<Rightarrow> parsed \<Rightarrow> state \<Rightarrow> completion \<times> state" where
  "with_connect W p s =
     (case get_connection_dict (environ W) of
        Inl e \<Rightarrow> (Raise e, s)
      | Inr d \<Rightarrow>
          (let s1 = log (Connect d) s in
           case connect W d of
             Inl e \<Rightarrow> (Raise e, s1)
           | Inr c \<Rightarrow>
               (let s2 = log (Enter c) (s1\<lparr>conn_var := Some c\<rparr>);
                    s3 = log (Query (sql p) c) s2
                in case read_sql W (sql p) c of
                     Inl e \<Rightarrow> (Raise e, log (Exit c) s3)
                   | Inr t \<Rightarrow> (Return (PDataFrame t), log (Exit c) s3))))"

text \<open>
  Lines 123 to 126, the handler of \<^verbatim>\<open>except Exception as e\<close>: it prints the error,
  then evaluates \<^verbatim>\<open>sql.connection.Connection.tell_format()\<close>, which starts by reading
  the global name \<^verbatim>\<open>sql\<close>, prints the hint and returns None.
\<close>

definition handler :: "world \<Rightarrow> exn \<Rightarrow> state \<Rightarrow> completion \<times> state" where
  "handler W e s =
     (let s1 = print_line (str_exn e) s in
      case lookup_global ''sql'' of
        Inl e' \<Rightarrow> (Raise e', s1)
      | Inr _ \<Rightarrow>
          (case tell_format W of
             Inl e' \<Rightarrow> (Raise e', s1)
           | Inr hint \<Rightarrow> (Return PNone, print_line hint s1)))"

text \<open>Lines 116 to 126, the first \<^verbatim>\<open>try\<close> statement.\<close>

definition first_block :: "world \<Rightarrow> parsed \<Rightarrow> state \<Rightarrow> completion \<times> state" where
  "first_block W p s =
     (case with_connect W p s of
        (Raise e, s') \<Rightarrow> if is_Exception e then handler W e s' else (Raise e, s')
      | (c, s') \<Rightarrow> (c, s'))"

text \<open>\<^verbatim>\<open>', '.join(keys)\<close>\<close>

fun join_comma :: "string list \<Rightarrow> string" where
  "join_comma [] = []"
| "join_comma [k] = k"
| "join_comma (k # ks) = k @ '', '' @ join_comma ks"

text \<open>\<^verbatim>\<open>dict.update\<close> with the pairs of a mapping, in order.\<close>

definition ns_update :: "(string \<times> pyval) list \<Rightarrow> namespace \<Rightarrow> namespace" where
  "ns_update kvs ns = fold (\<lambda>(k, v) m. m(k \<mapsto> v)) kvs ns"

text \<open>The name of a value's type, and the text of the AttributeError for a missing attribute.\<close>

fun type_name :: "pyval \<Rightarrow> string" where
  "type_name PNone = ''NoneType''"
| "type_name (PStr _) = ''str''"
| "type_name (PInt _) = ''int''"
| "type_name (PBool _) = ''bool''"
| "type_name (PDataFrame _) = ''DataFrame''"
| "type_name (PResultSet _) = ''ResultSet''"
| "type_name (PSeries _) = ''Series''"
| "type_name (PTuple _) = ''tuple''"

definition no_attribute :: "pyval \<Rightarrow> string \<Rightarrow> string" where
  "no_attribute v a =
     [CHR 0x27] @ type_name v @ [CHR 0x27] @ '' object has no attribute '' @
     [CHR 0x27] @ a @ [CHR 0x27]"

text \<open>
  Lines 135 to 147, binding the columns. With \<^verbatim>\<open>autopandas\<close> the source calls
  \<^verbatim>\<open>result.keys()\<close> and updates the namespace from the dataframe (each column name
  bound to its series); without, it reads the attribute \<^verbatim>\<open>result.keys\<close> and calls
  \<^verbatim>\<open>result.dict()\<close>, which the row set has and the dataframe has not. The runner
  returns None, a text, a dataframe or a row set; the keys of a row set are a list, which
  cannot be called.
\<close>

definition bind_columns :: "config \<Rightarrow> pyval \<Rightarrow> state \<Rightarrow> completion \<times> state" where
  "bind_columns cfg r s =
     (if autopandas cfg then
        (case r of
           PDataFrame t \<Rightarrow>
             (let s1 = (if feedback cfg
                        then print_line (''Returning data to local variables ['' @
                                         join_comma (map fst t) @ '']'') s
                        else s)
              in (Return PNone,
                  s1\<lparr>user_ns := ns_update (map (\<lambda>(k, col). (k, PSeries col)) t) (user_ns s1)\<rparr>))
         | PResultSet t \<Rightarrow> (Raise (TypeError '''list' object is not callable''), s)
         | _ \<Rightarrow> (Raise (AttributeError (no_attribute r ''keys'')), s))
      else
        (case r of
           PResultSet t \<Rightarrow>
             (let s1 = (if feedback cfg
                        then print_line (''Returning data to local variables ['' @
                                         join_comma (map fst t) @ '']'') s
                        else s)
              in (Return PNone,
                  s1\<lparr>user_ns := ns_update (map (\<lambda>(k, col). (k, PTuple col)) t) (user_ns s1)\<rparr>))
         | PDataFrame t \<Rightarrow> (Raise (AttributeError (no_attribute r ''dict'')), s)
         | _ \<Rightarrow> (Raise (AttributeError (no_attribute r ''keys'')), s)))"

text \<open>
  Lines 150 to 157: \<^verbatim>\<open>flags.get('result_var')\<close> is true for a flag that is present
  and not empty.
\<close>

definition bind_result_var :: "parsed \<Rightarrow> pyval \<Rightarrow> state \<Rightarrow> completion \<times> state" where
  "bind_result_var p r s =
     (case flags p ''result_var'' of
        None \<Rightarrow> (Return r, s)
      | Some result_var \<Rightarrow>
          if result_var = [] then (Return r, s)
          else
            (let s1 = print_line (''Returning data to local variable '' @ result_var) s
             in (Return PNone, s1\<lparr>user_ns := (user_ns s1)(result_var \<mapsto> r)\<rparr>)))"

fun is_str :: "pyval \<Rightarrow> bool" where
  "is_str (PStr _) = True"
| "is_str _ = False"

text \<open>
  Lines 129 to 157, the body of the second \<^verbatim>\<open>try\<close>. The call
  \<^verbatim>\<open>sql.run.run(conn, parsed['sql'], self, user_ns)\<close> reads the global \<^verbatim>\<open>sql\<close>,
  then the local \<^verbatim>\<open>conn\<close>.
\<close>

definition legacy_body :: "world \<Rightarrow> config \<Rightarrow> parsed \<Rightarrow> namespace \<Rightarrow> state \<Rightarrow> completion \<times> state" where
  "legacy_body W cfg p ns s =
     (case lookup_global ''sql'' of
        Inl e \<Rightarrow> (Raise e, s)
      | Inr _ \<Rightarrow>
          (case conn_var s of
             None \<Rightarrow> (Raise (UnboundLocalError ''local variable 'conn' referenced before assignment''), s)
           | Some c \<Rightarrow>
               (case run W c (sql p) cfg ns of
                  Inl e \<Rightarrow> (Raise e, s)
                | Inr r \<Rightarrow>
                    if r \<noteq> PNone \<and> \<not> is_str r \<and> column_local_vars cfg
                    then bind_columns cfg r s
                    else bind_result_var p r s)))"

text \<open>
  Lines 128 to 164, the second \<^verbatim>\<open>try\<close> statement: a ProgrammingError or
  OperationalError is printed when \<^verbatim>\<open>short_errors\<close> is set, and raised again when not.
\<close>

definition legacy_block :: "world \<Rightarrow> config \<Rightarrow> parsed \<Rightarrow> namespace \<Rightarrow> state \<Rightarrow> completion \<times> state" where
  "legacy_block W cfg p ns s =
     (case legacy_body W cfg p ns s of
        (Raise e, s') \<Rightarrow>
          if is_database_error e
          then (if short_errors cfg then (Normal, print_line (str_exn e) s') else (Raise e, s'))
          else (Raise e, s')
      | (c, s') \<Rightarrow> (c, s'))"

text \<open>
  \<^verbatim>\<open>VerticaSqlMagic.execute\<close>: the copy of the namespace updated with the local scope,
  the parse (outside both \<^verbatim>\<open>try\<close> statements), the first \<^verbatim>\<open>try\<close>, and the second
  when the first falls through.
\<close>

definition execute ::
  "world \<Rightarrow> config \<Rightarrow> string \<Rightarrow> string \<Rightarrow> namespace \<Rightarrow> state \<Rightarrow> outcome \<times> state" where
  "execute W cfg line cell local_ns s0 =
     (let s = s0\<lparr>conn_var := None\<rparr>;
          ns = user_ns s ++ local_ns
      in case parse W (invocation_text line cell) cfg of
           Inl e \<Rightarrow> (Raised e, s)
         | Inr p \<Rightarrow>
             (case first_block W p s of
                (Normal, s1) \<Rightarrow> (case legacy_block W cfg p ns s1 of (c, s2) \<Rightarrow> (finish c, s2))
              | (c, s1) \<Rightarrow> (finish c, s1)))"

section \<open>Example worlds\<close>

text \<open>An environment with the four mandatory variables and none of the optional ones.\<close>

definition demo_env :: environ where
  "demo_env =
     [''VERTICA_HOST'' \<mapsto> ''db.local'', ''VERTICA_USER'' \<mapsto> ''dbadmin'',
      ''VERTICA_PASSWORD'' \<mapsto> ''secret'', ''VERTICA_DB'' \<mapsto> ''sales'']"

text \<open>The connection parameters built from that environment.\<close>

definition demo_params :: "(string \<times> pyval) list" where
  "demo_params =
     [(''host'', PStr ''db.local''), (''port'', PInt 5433), (''user'', PStr ''dbadmin''),
      (''password'', PStr ''secret''), (''database'', PStr ''sales''),
      (''session_label'', PStr ''vsql magic session''), (''unicode_error'', PStr ''strict''),
      (''ssl'', PBool False), (''use_prepared_statements'', PBool False),
      (''connection_timeout'', PInt 5)]"

text \<open>A result with the columns a and b.\<close>

definition demo_table :: table where
  "demo_table = [(''a'', [DInt 1, DInt 2]), (''b'', [DStr ''x'', DStr ''y''])]"

text \<open>A world where every collaborator succeeds and the parser finds no flag.\<close>

definition ok_world :: world where
  "ok_world =
     \<lparr>environ = demo_env,
      parse = (\<lambda>txt cfg. Inr \<lparr>sql = txt, flags = Map.empty\<rparr>),
      connect = (\<lambda>d. Inr 7),
      read_sql = (\<lambda>q c. Inr demo_table),
      tell_format = Inr ''Format: (postgresql|mysql)://username:password@hostname/dbname'',
      run = (\<lambda>c q cfg ns. Inr (PResultSet demo_table))\<rparr>"

text \<open>The database rejects the statement.\<close>

definition bad_sql_world :: world where
  "bad_sql_world = ok_world\<lparr>read_sql := (\<lambda>q c. Inl (ProgrammingError ''Syntax error at or near FORM''))\<rparr>"

text \<open>The user interrupts the kernel while the query runs.\<close>

definition interrupt_world :: world where
  "interrupt_world = ok_world\<lparr>read_sql := (\<lambda>q c. Inl KeyboardInterrupt)\<rparr>"

text \<open>The variable VERTICA_HOST is not set.\<close>

definition no_host_world :: world where
  "no_host_world = ok_world\<lparr>environ := demo_env(''VERTICA_HOST'' := None)\<rparr>"

text \<open>The parser finds the flag that names r as the target variable.\<close>

definition result_var_world :: world where
  "result_var_world =
     ok_world\<lparr>parse := (\<lambda>txt cfg. Inr \<lparr>sql = txt, flags = [''result_var'' \<mapsto> ''r'']\<rparr>)\<rparr>"

text \<open>
  VERTICA_HOST is not set and the parser raises: the first line names a section that the
  DSN file of \<^verbatim>\<open>dsn_filename\<close> does not have.
\<close>

definition missing_dsn_world :: world where
  "missing_dsn_world =
     no_host_world\<lparr>parse := (\<lambda>txt cfg. Inl (OtherException ''No section: mydsn''))\<rparr>"

text \<open>A fresh notebook: nothing printed, no driver activity, an empty namespace.\<close>

definition init_state :: state where
  "init_state = \<lparr>stdout = [], events = [], user_ns = Map.empty, conn_var = None\<rparr>"

text \<open>
  The three outcomes of the spec's invariant: a result value reaches the caller, the
  notebook namespace is changed, a line is printed by the error handler (the only lines
  a call that binds nothing prints).
\<close>

definition result_returned :: "outcome \<Rightarrow> bool" where
  "result_returned out = (case out of Returned v \<Rightarrow> v \<noteq> PNone | Raised e \<Rightarrow> False)"

definition namespace_bound :: "state \<Rightarrow> state \<Rightarrow> bool" where
  "namespace_bound s s' = (user_ns s' \<noteq> user_ns s)"

definition error_printed :: "state \<Rightarrow> state \<Rightarrow> bool" where
  "error_printed s s' = (stdout s' \<noteq> stdout s)"

definition outcomes :: "state \<Rightarrow> outcome \<times> state \<Rightarrow> nat" where
  "outcomes s r =
     (if result_returned (fst r) then 1 else 0) +
     (if namespace_bound s (snd r) then 1 else 0) +
     (if error_printed s (snd r) then 1 else 0)"

text \<open>\<^verbatim>\<open>needle in text\<close>: the text holds the needle as a substring.\<close>

fun starts_with :: "string \<Rightarrow> string \<Rightarrow> bool" where
  "starts_with [] ys = True"
| "starts_with (x # xs) [] = False"
| "starts_with (x # xs) (y # ys) = (x = y \<and> starts_with xs ys)"

fun mentions :: "string \<Rightarrow> string \<Rightarrow> bool" where
  "mentions needle [] = starts_with needle []"
| "mentions needle (c # cs) = (starts_with needle (c # cs) \<or> mentions needle cs)"

definition call_outcomes ::
  "world \<Rightarrow> config \<Rightarrow> string \<Rightarrow> string \<Rightarrow> namespace \<Rightarrow> state \<Rightarrow> nat" where
  "call_outcomes W cfg line cell local_ns s = outcomes s (execute W cfg line cell local_ns s)"

section \<open>Facts about the blocks\<close>

lemma sql_unbound: "lookup_global ''sql'' = Inl (NameError ''name 'sql' is not defined'')"
  by (simp add: lookup_global_def module_globals_def)

lemma handler_raises:
  "handler W e s = (Raise (NameError ''name 'sql' is not defined''), print_line (str_exn e) s)"
  by (simp add: handler_def sql_unbound)

lemma handler_not_Normal: "fst (handler W e s) \<noteq> Normal"
  by (simp add: handler_def Let_def split: sum.splits)

lemma with_connect_not_Normal: "fst (with_connect W p s) \<noteq> Normal"
  by (simp add: with_connect_def Let_def split: sum.splits)

lemma first_block_not_Normal: "fst (first_block W p s) \<noteq> Normal"
proof (cases "with_connect W p s")
  case (Pair c s')
  with with_connect_not_Normal [of W p s] have "c \<noteq> Normal" by simp
  with Pair show ?thesis
    using handler_not_Normal [of W _ s']
    by (cases c) (simp_all add: first_block_def)
qed

lemma with_connect_dict_error:
  "get_connection_dict (environ W) = Inl e \<Longrightarrow> with_connect W p s = (Raise e, s)"
  by (simp add: with_connect_def)

lemma with_connect_connect_error:
  "get_connection_dict (environ W) = Inr d \<Longrightarrow> connect W d = Inl e \<Longrightarrow>
   with_connect W p s = (Raise e, log (Connect d) s)"
  by (simp add: with_connect_def)

lemma with_connect_entered:
  "get_connection_dict (environ W) = Inr d \<Longrightarrow> connect W d = Inr c \<Longrightarrow>
   with_connect W p s =
     (case read_sql W (sql p) c of Inl e \<Rightarrow> Raise e | Inr t \<Rightarrow> Return (PDataFrame t),
      s\<lparr>events := events s @ [Connect d, Enter c, Query (sql p) c, Exit c], conn_var := Some c\<rparr>)"
  by (simp add: with_connect_def log_def Let_def split: sum.splits)

lemma with_connect_frame:
  "user_ns (snd (with_connect W p s)) = user_ns s \<and> stdout (snd (with_connect W p s)) = stdout s"
  by (simp add: with_connect_def Let_def log_def split: sum.splits)

lemma first_block_cases:
  "first_block W p s =
     (case with_connect W p s of
        (Raise e, s') \<Rightarrow>
          if is_Exception e
          then (Raise (NameError ''name 'sql' is not defined''), print_line (str_exn e) s')
          else (Raise e, s')
      | (c, s') \<Rightarrow> (c, s'))"
  by (simp add: first_block_def handler_raises split: prod.splits completion.splits)

lemma handler_user_ns: "user_ns (snd (handler W e s)) = user_ns s"
  by (simp add: handler_def Let_def print_line_def split: sum.splits)

lemma first_block_user_ns: "user_ns (snd (first_block W p s)) = user_ns s"
  using with_connect_frame [of W p s]
  by (auto simp: first_block_def handler_user_ns split: prod.splits completion.splits)

lemma execute_unfold:
  "parse W (invocation_text line cell) cfg = Inr p \<Longrightarrow>
   execute W cfg line cell local_ns s =
     (finish (fst (first_block W p (s\<lparr>conn_var := None\<rparr>))),
      snd (first_block W p (s\<lparr>conn_var := None\<rparr>)))"
  using first_block_not_Normal [of W p "s\<lparr>conn_var := None\<rparr>"]
  by (cases "first_block W p (s\<lparr>conn_var := None\<rparr>)";
      cases "fst (first_block W p (s\<lparr>conn_var := None\<rparr>))")
     (simp_all add: execute_def Let_def)

lemma execute_parse_error:
  "parse W (invocation_text line cell) cfg = Inl e \<Longrightarrow>
   execute W cfg line cell local_ns s = (Raised e, s\<lparr>conn_var := None\<rparr>)"
  by (simp add: execute_def Let_def)

lemma execute_success:
  assumes "parse W (invocation_text line cell) cfg = Inr p"
    and "get_connection_dict (environ W) = Inr d"
    and "connect W d = Inr c"
    and "read_sql W (sql p) c = Inr t"
  shows "execute W cfg line cell local_ns s =
           (Returned (PDataFrame t),
            s\<lparr>events := events s @ [Connect d, Enter c, Query (sql p) c, Exit c],
              conn_var := Some c\<rparr>)"
  using assms
  by (simp add: execute_unfold first_block_cases with_connect_entered)

lemma execute_query_error:
  assumes "parse W (invocation_text line cell) cfg = Inr p"
    and "get_connection_dict (environ W) = Inr d"
    and "connect W d = Inr c"
    and "read_sql W (sql p) c = Inl e"
  shows "execute W cfg line cell local_ns s =
           (if is_Exception e
            then (Raised (NameError ''name 'sql' is not defined''),
                  s\<lparr>stdout := stdout s @ [str_exn e],
                    events := events s @ [Connect d, Enter c, Query (sql p) c, Exit c],
                    conn_var := Some c\<rparr>)
            else (Raised e,
                  s\<lparr>events := events s @ [Connect d, Enter c, Query (sql p) c, Exit c],
                    conn_var := Some c\<rparr>))"
  using assms
  by (simp add: execute_unfold first_block_cases with_connect_entered print_line_def)

lemma execute_dict_error:
  assumes "parse W (invocation_text line cell) cfg = Inr p"
    and "get_connection_dict (environ W) = Inl e"
  shows "execute W cfg line cell local_ns s =
           (Raised (NameError ''name 'sql' is not defined''),
            s\<lparr>stdout := stdout s @ [str_exn e], conn_var := None\<rparr>)"
proof -
  from assms(2) have "is_Exception e"
    by (auto simp: get_connection_dict_def split: option.splits)
  with assms show ?thesis
    by (simp add: execute_unfold first_block_cases with_connect_dict_error print_line_def)
qed

lemma execute_connect_error:
  assumes "parse W (invocation_text line cell) cfg = Inr p"
    and "get_connection_dict (environ W) = Inr d"
    and "connect W d = Inl e"
  shows "execute W cfg line cell local_ns s =
           (if is_Exception e
            then (Raised (NameError ''name 'sql' is not defined''),
                  s\<lparr>stdout := stdout s @ [str_exn e], events := events s @ [Connect d],
                    conn_var := None\<rparr>)
            else (Raised e, s\<lparr>events := events s @ [Connect d], conn_var := None\<rparr>))"
  using assms
  by (simp add: execute_unfold first_block_cases with_connect_connect_error print_line_def log_def)

lemma demo_dict: "get_connection_dict demo_env = Inr demo_params"
  by (simp add: get_connection_dict_def demo_env_def environ_get_def demo_params_def)

lemma ok_world_environ: "environ ok_world = demo_env"
  by (simp add: ok_world_def)

lemma ok_world_parse: "parse ok_world txt cfg = Inr \<lparr>sql = txt, flags = Map.empty\<rparr>"
  by (simp add: ok_world_def)

lemma ok_world_dict: "get_connection_dict (environ ok_world) = Inr demo_params"
  by (simp add: ok_world_environ demo_dict)

lemma ok_world_connect: "connect ok_world d = Inr 7"
  by (simp add: ok_world_def)

lemma ok_world_read_sql: "read_sql ok_world q c = Inr demo_table"
  by (simp add: ok_world_def)

lemma bad_sql_world_parse: "parse bad_sql_world txt cfg = Inr \<lparr>sql = txt, flags = Map.empty\<rparr>"
  by (simp add: bad_sql_world_def ok_world_def)

lemma bad_sql_world_dict: "get_connection_dict (environ bad_sql_world) = Inr demo_params"
  by (simp add: bad_sql_world_def ok_world_environ demo_dict)

lemma bad_sql_world_connect: "connect bad_sql_world d = Inr 7"
  by (simp add: bad_sql_world_def ok_world_def)

lemma bad_sql_world_read_sql:
  "read_sql bad_sql_world q c = Inl (ProgrammingError ''Syntax error at or near FORM'')"
  by (simp add: bad_sql_world_def ok_world_def)

lemma interrupt_world_parse: "parse interrupt_world txt cfg = Inr \<lparr>sql = txt, flags = Map.empty\<rparr>"
  by (simp add: interrupt_world_def ok_world_def)

lemma interrupt_world_dict: "get_connection_dict (environ interrupt_world) = Inr demo_params"
  by (simp add: interrupt_world_def ok_world_environ demo_dict)

lemma interrupt_world_connect: "connect interrupt_world d = Inr 7"
  by (simp add: interrupt_world_def ok_world_def)

lemma interrupt_world_read_sql: "read_sql interrupt_world q c = Inl KeyboardInterrupt"
  by (simp add: interrupt_world_def ok_world_def)

lemma result_var_world_parse:
  "parse result_var_world txt cfg = Inr \<lparr>sql = txt, flags = [''result_var'' \<mapsto> ''r'']\<rparr>"
  by (simp add: result_var_world_def ok_world_def)

lemma result_var_world_dict: "get_connection_dict (environ result_var_world) = Inr demo_params"
  by (simp add: result_var_world_def ok_world_environ demo_dict)

lemma result_var_world_connect: "connect result_var_world d = Inr 7"
  by (simp add: result_var_world_def ok_world_def)

lemma result_var_world_read_sql: "read_sql result_var_world q c = Inr demo_table"
  by (simp add: result_var_world_def ok_world_def)

lemma ok_world_execute:
  "execute ok_world cfg line cell local_ns s =
     (Returned (PDataFrame demo_table),
      s\<lparr>events := events s @ [Connect demo_params, Enter 7, Query (invocation_text line cell) 7, Exit 7],
        conn_var := Some 7\<rparr>)"
  using execute_success [OF ok_world_parse ok_world_dict ok_world_connect ok_world_read_sql]
  by simp

lemma result_var_world_execute:
  "execute result_var_world cfg line cell local_ns s =
     (Returned (PDataFrame demo_table),
      s\<lparr>events := events s @ [Connect demo_params, Enter 7, Query (invocation_text line cell) 7, Exit 7],
        conn_var := Some 7\<rparr>)"
  using execute_success [OF result_var_world_parse result_var_world_dict result_var_world_connect
      result_var_world_read_sql]
  by simp

lemma bad_sql_world_execute:
  "execute bad_sql_world cfg line cell local_ns s =
     (Raised (NameError ''name 'sql' is not defined''),
      s\<lparr>stdout := stdout s @ [''Syntax error at or near FORM''],
        events := events s @ [Connect demo_params, Enter 7, Query (invocation_text line cell) 7, Exit 7],
        conn_var := Some 7\<rparr>)"
  using execute_query_error [OF bad_sql_world_parse bad_sql_world_dict bad_sql_world_connect
      bad_sql_world_read_sql]
  by simp

lemma interrupt_world_execute:
  "execute interrupt_world cfg line cell local_ns s =
     (Raised KeyboardInterrupt,
      s\<lparr>events := events s @ [Connect demo_params, Enter 7, Query (invocation_text line cell) 7, Exit 7],
        conn_var := Some 7\<rparr>)"
  using execute_query_error [OF interrupt_world_parse interrupt_world_dict interrupt_world_connect
      interrupt_world_read_sql]
  by simp

lemma missing_dsn_world_parse:
  "parse missing_dsn_world txt cfg = Inl (OtherException ''No section: mydsn'')"
  by (simp add: missing_dsn_world_def no_host_world_def ok_world_def)

lemma missing_dsn_world_host: "environ missing_dsn_world ''VERTICA_HOST'' = None"
  by (simp add: missing_dsn_world_def no_host_world_def ok_world_def)

lemma missing_dsn_world_execute:
  "execute missing_dsn_world cfg line cell local_ns s =
     (Raised (OtherException ''No section: mydsn''), s\<lparr>conn_var := None\<rparr>)"
  using execute_parse_error [OF missing_dsn_world_parse] by simp

lemma no_host_world_host: "environ no_host_world ''VERTICA_HOST'' = None"
  by (simp add: no_host_world_def ok_world_def)

lemma no_host_world_parse: "parse no_host_world txt cfg = Inr \<lparr>sql = txt, flags = Map.empty\<rparr>"
  by (simp add: no_host_world_def ok_world_def)

lemma no_host_world_execute:
  "execute no_host_world cfg line cell local_ns s =
     (Raised (NameError ''name 'sql' is not defined''),
      s\<lparr>stdout := stdout s @ [''Ensure that `vertica.host` is set in your environment.''],
        conn_var := None\<rparr>)"
proof -
  have "get_connection_dict (environ no_host_world) =
      Inl (AssertionError ''Ensure that `vertica.host` is set in your environment.'')"
    using no_host_world_host by (simp add: get_connection_dict_def)
  from execute_dict_error [OF no_host_world_parse this] show ?thesis by simp
qed

lemma host_message_names:
  "mentions ''vertica.host'' ''Ensure that `vertica.host` is set in your environment.'' \<and>
   \<not> mentions ''VERTICA_HOST'' ''Ensure that `vertica.host` is set in your environment.''"
  by simp

lemma not_Exception_escapes: "\<not> is_Exception e \<Longrightarrow> escapes_handler e"
  by (cases e) simp_all

lemma database_error_is_Exception: "is_database_error e \<Longrightarrow> is_Exception e"
  by (cases e) simp_all

lemma database_error_not_NameError: "is_database_error e \<Longrightarrow> e \<noteq> NameError m"
  by (cases e) simp_all

section \<open>The connection dictionary and the configuration check\<close>

text \<open>
  Claim C8. Whenever the four mandatory variables VERTICA_HOST, VERTICA_USER,
  VERTICA_PASSWORD and VERTICA_DB are set, \<^verbatim>\<open>get_connection_dict\<close> returns a dictionary
  whose host, user, password and database are their values, whose port is 5433 when
  VERTICA_PORT is unset, whose session label is the fixed text \<^verbatim>\<open>vsql magic session\<close>
  when VERTICA_LABEL is unset, and whose connection timeout is 5 when VERTICA_TIMEOUT is
  unset; an optional variable that is set gives its own text.
\<close>

theorem C8_connection_dict_defaults:
  assumes "env ''VERTICA_HOST'' = Some h"
    and "env ''VERTICA_USER'' = Some u"
    and "env ''VERTICA_PASSWORD'' = Some pw"
    and "env ''VERTICA_DB'' = Some db"
  shows "\<exists>d. get_connection_dict env = Inr d \<and>
           map_of d ''host'' = Some (PStr h) \<and>
           map_of d ''user'' = Some (PStr u) \<and>
           map_of d ''password'' = Some (PStr pw) \<and>
           map_of d ''database'' = Some (PStr db) \<and>
           map_of d ''port'' =
             Some (case env ''VERTICA_PORT'' of None \<Rightarrow> PInt 5433 | Some v \<Rightarrow> PStr v) \<and>
           map_of d ''session_label'' =
             Some (case env ''VERTICA_LABEL'' of None \<Rightarrow> PStr ''vsql magic session''
                   | Some v \<Rightarrow> PStr v) \<and>
           map_of d ''connection_timeout'' =
             Some (case env ''VERTICA_TIMEOUT'' of None \<Rightarrow> PInt 5 | Some v \<Rightarrow> PStr v)"
  using assms by (simp add: get_connection_dict_def environ_get_def)

theorem C8_connection_dict_defaults_witness:
  "demo_env ''VERTICA_HOST'' = Some ''db.local'' \<and>
   demo_env ''VERTICA_USER'' = Some ''dbadmin'' \<and>
   demo_env ''VERTICA_PASSWORD'' = Some ''secret'' \<and>
   demo_env ''VERTICA_DB'' = Some ''sales'' \<and>
   (\<exists>d. get_connection_dict demo_env = Inr d \<and>
        map_of d ''host'' = Some (PStr ''db.local'') \<and>
        map_of d ''user'' = Some (PStr ''dbadmin'') \<and>
        map_of d ''password'' = Some (PStr ''secret'') \<and>
        map_of d ''database'' = Some (PStr ''sales'') \<and>
        map_of d ''port'' = Some (PInt 5433) \<and>
        map_of d ''session_label'' = Some (PStr ''vsql magic session'') \<and>
        map_of d ''connection_timeout'' = Some (PInt 5))"
proof -
  have h: "demo_env ''VERTICA_HOST'' = Some ''db.local''"
    and u: "demo_env ''VERTICA_USER'' = Some ''dbadmin''"
    and pw: "demo_env ''VERTICA_PASSWORD'' = Some ''secret''"
    and db: "demo_env ''VERTICA_DB'' = Some ''sales''"
    by (simp_all add: demo_env_def)
  have opt: "demo_env ''VERTICA_PORT'' = None" "demo_env ''VERTICA_LABEL'' = None"
    "demo_env ''VERTICA_TIMEOUT'' = None"
    by (simp_all add: demo_env_def)
  from C8_connection_dict_defaults [OF h u pw db] h u pw db opt show ?thesis by simp
qed

text \<open>
  Claim C5, as the code has it. In an environment where VERTICA_HOST is unset, a call
  whose invocation the parser accepts is stopped by the first assertion of
  \<^verbatim>\<open>get_connection_dict\<close>, raised while the argument of \<^verbatim>\<open>connect\<close> is
  evaluated: the driver's trace gains no event (no connection attempt, no query), the
  one line the call prints is the assertion's message, which names the missing setting as
  \<^verbatim>\<open>vertica.host\<close>, and no result value reaches the caller.
\<close>

theorem C5_missing_host_reported_before_connecting:
  assumes "environ W ''VERTICA_HOST'' = None"
    and "parse W (invocation_text line cell) cfg = Inr p"
  shows "stdout (snd (execute W cfg line cell local_ns s)) =
           stdout s @ [''Ensure that `vertica.host` is set in your environment.''] \<and>
         mentions ''vertica.host'' ''Ensure that `vertica.host` is set in your environment.'' \<and>
         events (snd (execute W cfg line cell local_ns s)) = events s \<and>
         \<not> result_returned (fst (execute W cfg line cell local_ns s))"
proof -
  from assms(1) have "get_connection_dict (environ W) =
      Inl (AssertionError ''Ensure that `vertica.host` is set in your environment.'')"
    by (simp add: get_connection_dict_def)
  from execute_dict_error [OF assms(2) this] host_message_names show ?thesis
    by (simp add: result_returned_def)
qed

theorem C5_missing_host_reported_before_connecting_witness:
  "environ no_host_world ''VERTICA_HOST'' = None \<and>
   parse no_host_world (invocation_text ''SELECT a, b'' ''FROM t'') default_config =
     Inr \<lparr>sql = invocation_text ''SELECT a, b'' ''FROM t'', flags = Map.empty\<rparr> \<and>
   stdout (snd (execute no_host_world default_config ''SELECT a, b'' ''FROM t'' Map.empty
                  init_state)) =
     [''Ensure that `vertica.host` is set in your environment.''] \<and>
   events (snd (execute no_host_world default_config ''SELECT a, b'' ''FROM t'' Map.empty
                  init_state)) = [] \<and>
   \<not> result_returned (fst (execute no_host_world default_config ''SELECT a, b'' ''FROM t''
                              Map.empty init_state))"
proof -
  have h: "environ no_host_world ''VERTICA_HOST'' = None"
    by (rule no_host_world_host)
  have p: "parse no_host_world (invocation_text ''SELECT a, b'' ''FROM t'') default_config =
      Inr \<lparr>sql = invocation_text ''SELECT a, b'' ''FROM t'', flags = Map.empty\<rparr>"
    by (rule no_host_world_parse)
  from C5_missing_host_reported_before_connecting
    [OF h p, where local_ns = Map.empty and s = init_state] h p
  show ?thesis by (simp add: init_state_def)
qed

text \<open>
  Two calls with VERTICA_HOST unset. In the first the parser raises, before the
  environment is looked at: the call ends with the parser's error and prints no message
  at all. In the second the message is printed, and its text does not hold the name
  VERTICA_HOST of the missing variable.
\<close>

theorem C5_missing_host_counterexample:
  "environ missing_dsn_world ''VERTICA_HOST'' = None \<and>
   fst (execute missing_dsn_world default_config ''[mydsn] SELECT a, b'' ''FROM t'' Map.empty
          init_state) = Raised (OtherException ''No section: mydsn'') \<and>
   stdout (snd (execute missing_dsn_world default_config ''[mydsn] SELECT a, b'' ''FROM t''
                  Map.empty init_state)) = [] \<and>
   environ no_host_world ''VERTICA_HOST'' = None \<and>
   stdout (snd (execute no_host_world default_config ''SELECT a, b'' ''FROM t'' Map.empty
                  init_state)) =
     [''Ensure that `vertica.host` is set in your environment.''] \<and>
   \<not> mentions ''VERTICA_HOST'' ''Ensure that `vertica.host` is set in your environment.''"
  using host_message_names
  by (simp add: missing_dsn_world_host missing_dsn_world_execute no_host_world_host
      no_host_world_execute init_state_def)

section \<open>The scoped connection\<close>

text \<open>
  Claim C6. Whenever a call acquires a handle (the invocation parses, the connection
  dictionary is built and \<^verbatim>\<open>connect\<close> returns the handle c), the driver's trace of the
  call is the connection, the entry, the query and then the exit of c: the handle is
  released once, after the query, whatever \<^verbatim>\<open>read_sql\<close> does (a result, a database
  error, any other error).
\<close>

theorem C6_handle_released_on_every_path:
  assumes "parse W (invocation_text line cell) cfg = Inr p"
    and "get_connection_dict (environ W) = Inr d"
    and "connect W d = Inr c"
  shows "events (snd (execute W cfg line cell local_ns s)) =
           events s @ [Connect d, Enter c, Query (sql p) c, Exit c]"
proof (cases "read_sql W (sql p) c")
  case (Inl e)
  from execute_query_error [OF assms Inl] show ?thesis by simp
next
  case (Inr t)
  from execute_success [OF assms Inr] show ?thesis by simp
qed

theorem C6_handle_released_on_every_path_witness:
  "parse bad_sql_world (invocation_text ''SELECT a, b'' ''FORM t'') default_config =
     Inr \<lparr>sql = invocation_text ''SELECT a, b'' ''FORM t'', flags = Map.empty\<rparr> \<and>
   get_connection_dict (environ bad_sql_world) = Inr demo_params \<and>
   connect bad_sql_world demo_params = Inr 7 \<and>
   read_sql bad_sql_world (invocation_text ''SELECT a, b'' ''FORM t'') 7 =
     Inl (ProgrammingError ''Syntax error at or near FORM'') \<and>
   events (snd (execute bad_sql_world default_config ''SELECT a, b'' ''FORM t'' Map.empty
                  init_state)) =
     [Connect demo_params, Enter 7, Query (invocation_text ''SELECT a, b'' ''FORM t'') 7, Exit 7] \<and>
   events (snd (execute interrupt_world default_config ''SELECT a, b'' ''FROM t'' Map.empty
                  init_state)) =
     [Connect demo_params, Enter 7, Query (invocation_text ''SELECT a, b'' ''FROM t'') 7, Exit 7] \<and>
   events (snd (execute ok_world default_config ''SELECT a, b'' ''FROM t'' Map.empty
                  init_state)) =
     [Connect demo_params, Enter 7, Query (invocation_text ''SELECT a, b'' ''FROM t'') 7, Exit 7]"
proof -
  have p: "parse bad_sql_world (invocation_text ''SELECT a, b'' ''FORM t'') default_config =
      Inr \<lparr>sql = invocation_text ''SELECT a, b'' ''FORM t'', flags = Map.empty\<rparr>"
    by (simp add: bad_sql_world_def ok_world_def)
  have d: "get_connection_dict (environ bad_sql_world) = Inr demo_params"
    by (simp add: bad_sql_world_def ok_world_environ demo_dict)
  have c: "connect bad_sql_world demo_params = Inr 7"
    by (simp add: bad_sql_world_def ok_world_def)
  have q: "read_sql bad_sql_world (invocation_text ''SELECT a, b'' ''FORM t'') 7 =
      Inl (ProgrammingError ''Syntax error at or near FORM'')"
    by (simp add: bad_sql_world_def ok_world_def)
  have p': "parse interrupt_world (invocation_text ''SELECT a, b'' ''FROM t'') default_config =
      Inr \<lparr>sql = invocation_text ''SELECT a, b'' ''FROM t'', flags = Map.empty\<rparr>"
    by (simp add: interrupt_world_def ok_world_def)
  have d': "get_connection_dict (environ interrupt_world) = Inr demo_params"
    by (simp add: interrupt_world_def ok_world_environ demo_dict)
  have c': "connect interrupt_world demo_params = Inr 7"
    by (simp add: interrupt_world_def ok_world_def)
  from C6_handle_released_on_every_path [OF p d c, where local_ns = Map.empty and s = init_state]
    C6_handle_released_on_every_path [OF p' d' c', where local_ns = Map.empty and s = init_state]
    C6_handle_released_on_every_path
      [OF ok_world_parse [of "invocation_text ''SELECT a, b'' ''FROM t''" default_config]
          ok_world_dict ok_world_connect, where local_ns = Map.empty and s = init_state]
    p d c q
  show ?thesis by (simp add: init_state_def)
qed

section \<open>What a successful call returns\<close>

text \<open>
  Claim C7. With both binding modes inactive (\<^verbatim>\<open>column_local_vars\<close> disabled and no
  \<^verbatim>\<open>result_var\<close> flag), a call whose query succeeds returns the result of
  \<^verbatim>\<open>read_sql\<close> to its caller and leaves the notebook namespace as it was.
\<close>

theorem C7_unbound_result_returned_directly:
  assumes "\<not> column_local_vars cfg"
    and "flags p ''result_var'' = None"
    and "parse W (invocation_text line cell) cfg = Inr p"
    and "get_connection_dict (environ W) = Inr d"
    and "connect W d = Inr c"
    and "read_sql W (sql p) c = Inr t"
  shows "fst (execute W cfg line cell local_ns s) = Returned (PDataFrame t) \<and>
         user_ns (snd (execute W cfg line cell local_ns s)) = user_ns s"
  using execute_success [OF assms(3-6)] by simp

theorem C7_unbound_result_returned_directly_witness:
  "\<not> column_local_vars default_config \<and>
   flags \<lparr>sql = invocation_text ''SELECT a, b'' ''FROM t'', flags = Map.empty\<rparr> ''result_var'' = None \<and>
   parse ok_world (invocation_text ''SELECT a, b'' ''FROM t'') default_config =
     Inr \<lparr>sql = invocation_text ''SELECT a, b'' ''FROM t'', flags = Map.empty\<rparr> \<and>
   get_connection_dict (environ ok_world) = Inr demo_params \<and>
   connect ok_world demo_params = Inr 7 \<and>
   read_sql ok_world (invocation_text ''SELECT a, b'' ''FROM t'') 7 = Inr demo_table \<and>
   fst (execute ok_world default_config ''SELECT a, b'' ''FROM t'' Map.empty init_state) =
     Returned (PDataFrame demo_table) \<and>
   user_ns (snd (execute ok_world default_config ''SELECT a, b'' ''FROM t'' Map.empty init_state)) =
     Map.empty"
proof -
  have f: "\<not> column_local_vars default_config"
    by (simp add: default_config_def)
  have r: "flags \<lparr>sql = invocation_text ''SELECT a, b'' ''FROM t'', flags = Map.empty\<rparr>
      ''result_var'' = None"
    by simp
  have q: "read_sql ok_world
      (sql \<lparr>sql = invocation_text ''SELECT a, b'' ''FROM t'', flags = Map.empty\<rparr>) 7 = Inr demo_table"
    by (simp add: ok_world_def)
  from C7_unbound_result_returned_directly
    [OF f r ok_world_parse [of "invocation_text ''SELECT a, b'' ''FROM t''" default_config]
        ok_world_dict ok_world_connect q, where local_ns = Map.empty and s = init_state]
    f ok_world_parse [of "invocation_text ''SELECT a, b'' ''FROM t''" default_config]
    ok_world_dict ok_world_connect [of demo_params] q
  show ?thesis by (simp add: init_state_def)
qed

text \<open>
  Claim C2, as the code has it. The configuration is never read on the way to the result:
  a call whose query succeeds returns the dataframe that \<^verbatim>\<open>read_sql\<close> produced, with
  \<^verbatim>\<open>autopandas\<close> enabled and with it disabled alike.
\<close>

theorem C2_dataframe_returned_whatever_autopandas:
  assumes "parse W (invocation_text line cell) (cfg\<lparr>autopandas := b\<rparr>) = Inr p"
    and "get_connection_dict (environ W) = Inr d"
    and "connect W d = Inr c"
    and "read_sql W (sql p) c = Inr t"
  shows "fst (execute W (cfg\<lparr>autopandas := b\<rparr>) line cell local_ns s) = Returned (PDataFrame t)"
  using execute_success [OF assms] by simp

theorem C2_dataframe_returned_whatever_autopandas_witness:
  "parse ok_world (invocation_text ''SELECT a, b'' ''FROM t'') (default_config\<lparr>autopandas := False\<rparr>) =
     Inr \<lparr>sql = invocation_text ''SELECT a, b'' ''FROM t'', flags = Map.empty\<rparr> \<and>
   get_connection_dict (environ ok_world) = Inr demo_params \<and>
   connect ok_world demo_params = Inr 7 \<and>
   read_sql ok_world (invocation_text ''SELECT a, b'' ''FROM t'') 7 = Inr demo_table \<and>
   fst (execute ok_world (default_config\<lparr>autopandas := False\<rparr>) ''SELECT a, b'' ''FROM t''
          Map.empty init_state) = Returned (PDataFrame demo_table)"
proof -
  have q: "read_sql ok_world
      (sql \<lparr>sql = invocation_text ''SELECT a, b'' ''FROM t'', flags = Map.empty\<rparr>) 7 = Inr demo_table"
    by (rule ok_world_read_sql)
  from C2_dataframe_returned_whatever_autopandas
    [OF ok_world_parse [of "invocation_text ''SELECT a, b'' ''FROM t''"
          "default_config\<lparr>autopandas := False\<rparr>"]
        ok_world_dict ok_world_connect q, where local_ns = Map.empty and s = init_state]
    ok_world_parse [of "invocation_text ''SELECT a, b'' ''FROM t''"
          "default_config\<lparr>autopandas := False\<rparr>"]
    ok_world_dict ok_world_connect [of demo_params] q
  show ?thesis by simp
qed

text \<open>
  With \<^verbatim>\<open>autopandas\<close> disabled the value returned is a dataframe, not the generic row
  set, and it is the value returned with \<^verbatim>\<open>autopandas\<close> enabled.
\<close>

theorem C2_autopandas_counterexample:
  "fst (execute ok_world (default_config\<lparr>autopandas := False\<rparr>) ''SELECT a, b'' ''FROM t''
          Map.empty init_state) = Returned (PDataFrame demo_table) \<and>
   fst (execute ok_world (default_config\<lparr>autopandas := False\<rparr>) ''SELECT a, b'' ''FROM t''
          Map.empty init_state) \<noteq> Returned (PResultSet demo_table) \<and>
   execute ok_world (default_config\<lparr>autopandas := False\<rparr>) ''SELECT a, b'' ''FROM t''
          Map.empty init_state =
   execute ok_world (default_config\<lparr>autopandas := True\<rparr>) ''SELECT a, b'' ''FROM t''
          Map.empty init_state"
  by (simp add: ok_world_execute)

text \<open>
  Claim C3, as the code has it. With \<^verbatim>\<open>column_local_vars\<close> enabled and a query that
  succeeds with the columns a and b, the call returns the dataframe to its caller, prints
  nothing and leaves the notebook namespace as it was, with \<^verbatim>\<open>feedback\<close> enabled or
  not: the names a and b are not bound.
\<close>

theorem C3_columns_returned_not_bound:
  assumes "column_local_vars cfg"
    and "parse W (invocation_text line cell) cfg = Inr p"
    and "get_connection_dict (environ W) = Inr d"
    and "connect W d = Inr c"
    and "read_sql W (sql p) c = Inr t"
    and "map fst t = [a, b]"
  shows "fst (execute W cfg line cell local_ns s) = Returned (PDataFrame t) \<and>
         user_ns (snd (execute W cfg line cell local_ns s)) = user_ns s \<and>
         stdout (snd (execute W cfg line cell local_ns s)) = stdout s"
  using execute_success [OF assms(2-5)] by simp

theorem C3_columns_returned_not_bound_witness:
  "column_local_vars (default_config\<lparr>column_local_vars := True\<rparr>) \<and>
   parse ok_world (invocation_text ''SELECT a, b'' ''FROM t'')
     (default_config\<lparr>column_local_vars := True\<rparr>) =
     Inr \<lparr>sql = invocation_text ''SELECT a, b'' ''FROM t'', flags = Map.empty\<rparr> \<and>
   get_connection_dict (environ ok_world) = Inr demo_params \<and>
   connect ok_world demo_params = Inr 7 \<and>
   read_sql ok_world (invocation_text ''SELECT a, b'' ''FROM t'') 7 = Inr demo_table \<and>
   map fst demo_table = [''a'', ''b''] \<and>
   fst (execute ok_world (default_config\<lparr>column_local_vars := True\<rparr>) ''SELECT a, b'' ''FROM t''
          Map.empty init_state) = Returned (PDataFrame demo_table) \<and>
   user_ns (snd (execute ok_world (default_config\<lparr>column_local_vars := True\<rparr>) ''SELECT a, b''
                   ''FROM t'' Map.empty init_state)) = Map.empty \<and>
   stdout (snd (execute ok_world (default_config\<lparr>column_local_vars := True\<rparr>) ''SELECT a, b''
                  ''FROM t'' Map.empty init_state)) = []"
proof -
  have f: "column_local_vars (default_config\<lparr>column_local_vars := True\<rparr>)"
    by simp
  have q: "read_sql ok_world
      (sql \<lparr>sql = invocation_text ''SELECT a, b'' ''FROM t'', flags = Map.empty\<rparr>) 7 = Inr demo_table"
    by (rule ok_world_read_sql)
  have k: "map fst demo_table = [''a'', ''b'']"
    by (simp add: demo_table_def)
  from C3_columns_returned_not_bound
    [OF f ok_world_parse [of "invocation_text ''SELECT a, b'' ''FROM t''"
            "default_config\<lparr>column_local_vars := True\<rparr>"]
        ok_world_dict ok_world_connect q k, where local_ns = Map.empty and s = init_state]
    ok_world_parse [of "invocation_text ''SELECT a, b'' ''FROM t''"
          "default_config\<lparr>column_local_vars := True\<rparr>"]
    ok_world_dict ok_world_connect [of demo_params] q k
  show ?thesis by (simp add: init_state_def)
qed

text \<open>
  With \<^verbatim>\<open>column_local_vars\<close> and \<^verbatim>\<open>feedback\<close> enabled and a result with the columns
  a and b, the call does not return None, binds neither a nor b and prints no feedback.
\<close>

theorem C3_column_binding_counterexample:
  "feedback (default_config\<lparr>column_local_vars := True\<rparr>) \<and>
   fst (execute ok_world (default_config\<lparr>column_local_vars := True\<rparr>) ''SELECT a, b'' ''FROM t''
          Map.empty init_state) \<noteq> Returned PNone \<and>
   user_ns (snd (execute ok_world (default_config\<lparr>column_local_vars := True\<rparr>) ''SELECT a, b''
                   ''FROM t'' Map.empty init_state)) ''a'' = None \<and>
   user_ns (snd (execute ok_world (default_config\<lparr>column_local_vars := True\<rparr>) ''SELECT a, b''
                   ''FROM t'' Map.empty init_state)) ''b'' = None \<and>
   stdout (snd (execute ok_world (default_config\<lparr>column_local_vars := True\<rparr>) ''SELECT a, b''
                  ''FROM t'' Map.empty init_state)) = []"
  by (simp add: ok_world_execute init_state_def default_config_def)

text \<open>
  Claim C4, as the code has it. With \<^verbatim>\<open>column_local_vars\<close> disabled and a
  \<^verbatim>\<open>result_var\<close> flag naming r, a call whose query succeeds returns the dataframe to its
  caller, prints nothing and leaves the notebook namespace as it was: r is not bound.
\<close>

theorem C4_result_var_returned_not_bound:
  assumes "\<not> column_local_vars cfg"
    and "flags p ''result_var'' = Some r"
    and "r \<noteq> []"
    and "parse W (invocation_text line cell) cfg = Inr p"
    and "get_connection_dict (environ W) = Inr d"
    and "connect W d = Inr c"
    and "read_sql W (sql p) c = Inr t"
  shows "fst (execute W cfg line cell local_ns s) = Returned (PDataFrame t) \<and>
         user_ns (snd (execute W cfg line cell local_ns s)) = user_ns s \<and>
         stdout (snd (execute W cfg line cell local_ns s)) = stdout s"
  using execute_success [OF assms(4-7)] by simp

theorem C4_result_var_returned_not_bound_witness:
  "\<not> column_local_vars default_config \<and>
   flags \<lparr>sql = invocation_text ''r << SELECT a, b'' ''FROM t'', flags = [''result_var'' \<mapsto> ''r'']\<rparr>
     ''result_var'' = Some ''r'' \<and>
   ''r'' \<noteq> [] \<and>
   parse result_var_world (invocation_text ''r << SELECT a, b'' ''FROM t'') default_config =
     Inr \<lparr>sql = invocation_text ''r << SELECT a, b'' ''FROM t'', flags = [''result_var'' \<mapsto> ''r'']\<rparr> \<and>
   get_connection_dict (environ result_var_world) = Inr demo_params \<and>
   connect result_var_world demo_params = Inr 7 \<and>
   read_sql result_var_world (invocation_text ''r << SELECT a, b'' ''FROM t'') 7 = Inr demo_table \<and>
   fst (execute result_var_world default_config ''r << SELECT a, b'' ''FROM t'' Map.empty init_state) =
     Returned (PDataFrame demo_table) \<and>
   user_ns (snd (execute result_var_world default_config ''r << SELECT a, b'' ''FROM t'' Map.empty
                   init_state)) = Map.empty \<and>
   stdout (snd (execute result_var_world default_config ''r << SELECT a, b'' ''FROM t'' Map.empty
                  init_state)) = []"
proof -
  have f: "\<not> column_local_vars default_config"
    by (simp add: default_config_def)
  have v: "flags \<lparr>sql = invocation_text ''r << SELECT a, b'' ''FROM t'',
      flags = [''result_var'' \<mapsto> ''r'']\<rparr> ''result_var'' = Some ''r''"
    by simp
  have n: "''r'' \<noteq> []"
    by simp
  have q: "read_sql result_var_world
      (sql \<lparr>sql = invocation_text ''r << SELECT a, b'' ''FROM t'',
            flags = [''result_var'' \<mapsto> ''r'']\<rparr>) 7 = Inr demo_table"
    by (rule result_var_world_read_sql)
  from C4_result_var_returned_not_bound
    [OF f v n result_var_world_parse [of "invocation_text ''r << SELECT a, b'' ''FROM t''" default_config]
        result_var_world_dict result_var_world_connect q,
      where local_ns = Map.empty and s = init_state]
    f result_var_world_parse [of "invocation_text ''r << SELECT a, b'' ''FROM t''" default_config]
    result_var_world_dict result_var_world_connect [of demo_params] q
  show ?thesis by (simp add: init_state_def)
qed

text \<open>
  With the flag naming r and \<^verbatim>\<open>column_local_vars\<close> disabled, the call does not return
  None, does not bind r and prints no feedback.
\<close>

theorem C4_result_var_counterexample:
  "\<not> column_local_vars default_config \<and>
   fst (execute result_var_world default_config ''r << SELECT a, b'' ''FROM t'' Map.empty init_state)
     \<noteq> Returned PNone \<and>
   user_ns (snd (execute result_var_world default_config ''r << SELECT a, b'' ''FROM t'' Map.empty
                   init_state)) ''r'' = None \<and>
   stdout (snd (execute result_var_world default_config ''r << SELECT a, b'' ''FROM t'' Map.empty
                  init_state)) = []"
  by (simp add: result_var_world_execute init_state_def default_config_def)

section \<open>Errors\<close>

text \<open>
  Claim C1, as the code has it. When \<^verbatim>\<open>read_sql\<close> raises a ProgrammingError or an
  OperationalError, the handler of the first \<^verbatim>\<open>try\<close> statement catches it, with
  \<^verbatim>\<open>short_errors\<close> enabled and with it disabled alike: the call prints exactly one
  line, the message of that error, and the database error is not raised again to the
  caller. What the handler hands back after printing is not part of the statement.
\<close>

theorem C1_database_error_printed_once_not_reraised:
  assumes "parse W (invocation_text line cell) (cfg\<lparr>short_errors := b\<rparr>) = Inr p"
    and "get_connection_dict (environ W) = Inr d"
    and "connect W d = Inr c"
    and "read_sql W (sql p) c = Inl e"
    and "is_database_error e"
  shows "stdout (snd (execute W (cfg\<lparr>short_errors := b\<rparr>) line cell local_ns s)) =
           stdout s @ [str_exn e] \<and>
         fst (execute W (cfg\<lparr>short_errors := b\<rparr>) line cell local_ns s) \<noteq> Raised e"
  using execute_query_error [OF assms(1-4)] database_error_is_Exception [OF assms(5)]
    database_error_not_NameError [OF assms(5)]
  by auto

theorem C1_database_error_printed_once_not_reraised_witness:
  "parse bad_sql_world (invocation_text ''SELECT a, b'' ''FORM t'')
     (default_config\<lparr>short_errors := False\<rparr>) =
     Inr \<lparr>sql = invocation_text ''SELECT a, b'' ''FORM t'', flags = Map.empty\<rparr> \<and>
   get_connection_dict (environ bad_sql_world) = Inr demo_params \<and>
   connect bad_sql_world demo_params = Inr 7 \<and>
   read_sql bad_sql_world (invocation_text ''SELECT a, b'' ''FORM t'') 7 =
     Inl (ProgrammingError ''Syntax error at or near FORM'') \<and>
   is_database_error (ProgrammingError ''Syntax error at or near FORM'') \<and>
   stdout (snd (execute bad_sql_world (default_config\<lparr>short_errors := False\<rparr>)
                  ''SELECT a, b'' ''FORM t'' Map.empty init_state)) =
     [''Syntax error at or near FORM''] \<and>
   fst (execute bad_sql_world (default_config\<lparr>short_errors := False\<rparr>) ''SELECT a, b'' ''FORM t''
          Map.empty init_state) \<noteq> Raised (ProgrammingError ''Syntax error at or near FORM'') \<and>
   stdout (snd (execute bad_sql_world (default_config\<lparr>short_errors := True\<rparr>)
                  ''SELECT a, b'' ''FORM t'' Map.empty init_state)) =
     [''Syntax error at or near FORM'']"
proof -
  have q: "read_sql bad_sql_world
      (sql \<lparr>sql = invocation_text ''SELECT a, b'' ''FORM t'', flags = Map.empty\<rparr>) 7 =
      Inl (ProgrammingError ''Syntax error at or near FORM'')"
    by (rule bad_sql_world_read_sql)
  have e: "is_database_error (ProgrammingError ''Syntax error at or near FORM'')"
    by simp
  from C1_database_error_printed_once_not_reraised
    [OF bad_sql_world_parse [of "invocation_text ''SELECT a, b'' ''FORM t''"
            "default_config\<lparr>short_errors := False\<rparr>"]
        bad_sql_world_dict bad_sql_world_connect q e,
      where local_ns = Map.empty and s = init_state]
    C1_database_error_printed_once_not_reraised
    [OF bad_sql_world_parse [of "invocation_text ''SELECT a, b'' ''FORM t''"
            "default_config\<lparr>short_errors := True\<rparr>"]
        bad_sql_world_dict bad_sql_world_connect q e,
      where local_ns = Map.empty and s = init_state]
    bad_sql_world_parse [of "invocation_text ''SELECT a, b'' ''FORM t''"
          "default_config\<lparr>short_errors := False\<rparr>"]
    bad_sql_world_dict bad_sql_world_connect [of demo_params] q e
  show ?thesis by (simp add: init_state_def)
qed

text \<open>
  With \<^verbatim>\<open>short_errors\<close> disabled, the ProgrammingError of the database is not raised
  again to the caller.
\<close>

theorem C1_short_errors_counterexample:
  "\<not> short_errors (default_config\<lparr>short_errors := False\<rparr>) \<and>
   read_sql bad_sql_world (invocation_text ''SELECT a, b'' ''FORM t'') 7 =
     Inl (ProgrammingError ''Syntax error at or near FORM'') \<and>
   fst (execute bad_sql_world (default_config\<lparr>short_errors := False\<rparr>) ''SELECT a, b'' ''FORM t''
          Map.empty init_state) \<noteq> Raised (ProgrammingError ''Syntax error at or near FORM'')"
  by (simp add: bad_sql_world_execute bad_sql_world_read_sql)

section \<open>One outcome for each call\<close>

text \<open>
  Claim C9, as the code has it. Of the three outcomes (a result value returned, the
  namespace changed, an error printed) a call never has more than one, and never a
  result together with a printed error. It has exactly one unless it is ended by an
  exception that no handler of \<^verbatim>\<open>execute\<close> catches: one raised by the parser, which
  is called outside the \<^verbatim>\<open>try\<close> statements, or one outside the class
  \<^verbatim>\<open>Exception\<close>, such as KeyboardInterrupt; then it has none.
\<close>

theorem C9_one_outcome_unless_uncaught:
  "call_outcomes W cfg line cell local_ns s \<le> 1 \<and>
   \<not> (result_returned (fst (execute W cfg line cell local_ns s)) \<and>
      error_printed s (snd (execute W cfg line cell local_ns s))) \<and>
   call_outcomes W cfg line cell local_ns s =
     (if \<exists>e. fst (execute W cfg line cell local_ns s) = Raised e \<and>
              (parse W (invocation_text line cell) cfg = Inl e \<or> escapes_handler e)
      then 0 else 1)"
proof (cases "parse W (invocation_text line cell) cfg")
  case (Inl e)
  from execute_parse_error [OF Inl] show ?thesis
    by (simp add: call_outcomes_def outcomes_def result_returned_def namespace_bound_def
        error_printed_def Inl)
next
  case p: (Inr p)
  show ?thesis
  proof (cases "get_connection_dict (environ W)")
    case (Inl e)
    from execute_dict_error [OF p Inl] show ?thesis
      by (simp add: call_outcomes_def outcomes_def result_returned_def namespace_bound_def
          error_printed_def p)
  next
    case d: (Inr d)
    show ?thesis
    proof (cases "connect W d")
      case (Inl e)
      from execute_connect_error [OF p d Inl] not_Exception_escapes [of e] show ?thesis
        by (cases "is_Exception e")
           (simp_all add: call_outcomes_def outcomes_def result_returned_def namespace_bound_def
              error_printed_def p)
    next
      case c: (Inr c)
      show ?thesis
      proof (cases "read_sql W (sql p) c")
        case (Inl e)
        from execute_query_error [OF p d c Inl] not_Exception_escapes [of e] show ?thesis
          by (cases "is_Exception e")
             (simp_all add: call_outcomes_def outcomes_def result_returned_def namespace_bound_def
                error_printed_def p)
      next
        case (Inr t)
        from execute_success [OF p d c Inr] show ?thesis
          by (simp add: call_outcomes_def outcomes_def result_returned_def namespace_bound_def
              error_printed_def)
      qed
    qed
  qed
qed

text \<open>
  A successful call and a call whose query the database rejects have one outcome each;
  a call whose parser raises has none.
\<close>

theorem C9_one_outcome_unless_uncaught_witness:
  "call_outcomes ok_world default_config ''SELECT a, b'' ''FROM t'' Map.empty init_state = 1 \<and>
   call_outcomes bad_sql_world default_config ''SELECT a, b'' ''FORM t'' Map.empty init_state = 1 \<and>
   call_outcomes missing_dsn_world default_config ''[mydsn] SELECT a, b'' ''FROM t'' Map.empty
     init_state = 0"
  using C9_one_outcome_unless_uncaught [of ok_world default_config "''SELECT a, b''" "''FROM t''"
      Map.empty init_state]
    C9_one_outcome_unless_uncaught [of bad_sql_world default_config "''SELECT a, b''" "''FORM t''"
      Map.empty init_state]
    C9_one_outcome_unless_uncaught [of missing_dsn_world default_config
      "''[mydsn] SELECT a, b''" "''FROM t''" Map.empty init_state]
  by (simp add: ok_world_execute bad_sql_world_execute bad_sql_world_parse
      missing_dsn_world_execute missing_dsn_world_parse)

text \<open>
  When the kernel is interrupted while the query runs, the call raises KeyboardInterrupt:
  no result is returned, nothing is bound and nothing is printed.
\<close>

theorem C9_interrupted_call_counterexample:
  "call_outcomes interrupt_world default_config ''SELECT a, b'' ''FROM t'' Map.empty init_state = 0 \<and>
   fst (execute interrupt_world default_config ''SELECT a, b'' ''FROM t'' Map.empty init_state) =
     Raised KeyboardInterrupt \<and>
   stdout (snd (execute interrupt_world default_config ''SELECT a, b'' ''FROM t'' Map.empty
                  init_state)) = [] \<and>
   user_ns (snd (execute interrupt_world default_config ''SELECT a, b'' ''FROM t'' Map.empty
                   init_state)) = Map.empty"
  by (simp add: interrupt_world_execute call_outcomes_def outcomes_def result_returned_def
      namespace_bound_def error_printed_def init_state_def)

section \<open>The notebook namespace\<close>

text \<open>
  Claim C10. No call of \<^verbatim>\<open>execute\<close> changes the notebook namespace
  \<^verbatim>\<open>self.shell.user_ns\<close>, whatever the collaborators do and whatever the local scope
  holds: the local scope is merged into a copy, and the first \<^verbatim>\<open>try\<close> statement never
  falls through (each of its paths returns or raises), so the statements after it, the
  only ones that write into the namespace, are never run.
\<close>

theorem C10_namespace_never_mutated:
  "user_ns (snd (execute W cfg line cell local_ns s)) = user_ns s \<and>
   fst (first_block W p s') \<noteq> Normal"
proof
  show "user_ns (snd (execute W cfg line cell local_ns s)) = user_ns s"
  proof (cases "parse W (invocation_text line cell) cfg")
    case (Inl e)
    then show ?thesis
      by (simp add: execute_parse_error)
  next
    case (Inr q)
    have "user_ns (snd (first_block W q (s\<lparr>conn_var := None\<rparr>))) = user_ns s"
      using first_block_user_ns [of W q "s\<lparr>conn_var := None\<rparr>"] by simp
    with Inr show ?thesis
      by (simp add: execute_unfold)
  qed
next
  show "fst (first_block W p s') \<noteq> Normal"
    by (rule first_block_not_Normal)
qed

end
